theory Spec2Isabelle
  imports Main "HOL-Library.Word"
begin

section \<open>The panorama renderer: a shallow embedding\<close>

text \<open>
  The renderer is the constructor \<open>Panorama\<close> with the methods \<open>setImage\<close> and
  \<open>render\<close>. The constructor builds the vertex and index lists of a sphere with two
  nested counting loops each, creates the GPU objects and uploads the lists;
  \<open>setImage\<close> registers a load and an error handler on a new image; \<open>render\<close> returns
  at once while \<open>imgElement\<close> is null and otherwise issues a fixed sequence of
  graphics-context calls.
\<close>

subsection \<open>Numbers\<close>

text \<open>
  The loop counters and the indices are small non-negative integers, exact in a
  JavaScript number: they are \<open>nat\<close>. The vertex coordinates are doubles computed with
  \<open>Math.sin\<close>, \<open>Math.cos\<close> and \<open>Math.PI\<close>; what the host rounds them to is not part of
  the program, so a coordinate is kept as the expression the source computes.
\<close>

datatype js_number =
    Num nat
  | Math_PI
  | Math_sin js_number
  | Math_cos js_number
  | Mul js_number js_number
  | Div js_number js_number
  | Neg js_number

subsection \<open>The vertex loops\<close>

text \<open>
  The inner loop \<open>for (var j=0; j <= lonSegments; ++j)\<close> pushes five numbers for each
  vertex: the position \<open>x * radius, y * radius, z * radius\<close> and the texture
  coordinate \<open>u, v\<close>.
\<close>

function vertsLoopJ ::
  "js_number \<Rightarrow> nat \<Rightarrow> nat \<Rightarrow> nat \<Rightarrow> js_number \<Rightarrow> js_number \<Rightarrow> nat \<Rightarrow> js_number list
    \<Rightarrow> js_number list" where
  "vertsLoopJ radius latSegments lonSegments i sinTheta cosTheta j panoVerts =
     (if j \<le> lonSegments then
        let phi = Div (Mul (Mul (Num j) (Num 2)) Math_PI) (Num lonSegments);
            sinPhi = Math_sin phi;
            cosPhi = Math_cos phi;
            x = Mul sinPhi sinTheta;
            y = cosTheta;
            z = Mul (Neg cosPhi) sinTheta;
            u = Div (Num j) (Num lonSegments);
            v = Div (Num i) (Num latSegments)
        in vertsLoopJ radius latSegments lonSegments i sinTheta cosTheta (Suc j)
             (panoVerts @ [Mul x radius, Mul y radius, Mul z radius, u, v])
      else panoVerts)"
  by pat_completeness auto
termination
  by (relation "measure (\<lambda>(radius, latSegments, lonSegments, i, sinTheta, cosTheta, j, panoVerts).
        Suc lonSegments - j)") auto

declare vertsLoopJ.simps [simp del]

function vertsLoopI :: "js_number \<Rightarrow> nat \<Rightarrow> nat \<Rightarrow> nat \<Rightarrow> js_number list \<Rightarrow> js_number list" where
  "vertsLoopI radius latSegments lonSegments i panoVerts =
     (if i \<le> latSegments then
        let theta = Div (Mul (Num i) Math_PI) (Num latSegments);
            sinTheta = Math_sin theta;
            cosTheta = Math_cos theta
        in vertsLoopI radius latSegments lonSegments (Suc i)
             (vertsLoopJ radius latSegments lonSegments i sinTheta cosTheta 0 panoVerts)
      else panoVerts)"
  by pat_completeness auto
termination
  by (relation "measure (\<lambda>(radius, latSegments, lonSegments, i, panoVerts). Suc latSegments - i)")
     auto

declare vertsLoopI.simps [simp del]

definition panoVerts :: "js_number \<Rightarrow> nat \<Rightarrow> nat \<Rightarrow> js_number list" where
  "panoVerts radius latSegments lonSegments = vertsLoopI radius latSegments lonSegments 0 []"

text \<open>
  The vertex buffer is read with a stride of 20 bytes, five 4-byte floats, so the
  number of vertices is the number of floats divided by five.
\<close>

definition vertexCount :: "js_number list \<Rightarrow> nat" where
  "vertexCount verts = length verts div 5"

subsection \<open>The index loops\<close>

function indicesLoopJ :: "nat \<Rightarrow> nat \<Rightarrow> nat \<Rightarrow> nat \<Rightarrow> nat list \<Rightarrow> nat list" where
  "indicesLoopJ lonSegments offset0 offset1 j panoIndices =
     (if j < lonSegments then
        let index0 = offset0 + j;
            index1 = offset1 + j
        in indicesLoopJ lonSegments offset0 offset1 (Suc j)
             (panoIndices @ [index0, index1, index0 + 1, index1, index1 + 1, index0 + 1])
      else panoIndices)"
  by pat_completeness auto
termination
  by (relation "measure (\<lambda>(lonSegments, offset0, offset1, j, panoIndices). lonSegments - j)") auto

declare indicesLoopJ.simps [simp del]

function indicesLoopI :: "nat \<Rightarrow> nat \<Rightarrow> nat \<Rightarrow> nat list \<Rightarrow> nat list" where
  "indicesLoopI latSegments lonSegments i panoIndices =
     (if i < latSegments then
        let offset0 = i * (lonSegments + 1);
            offset1 = (i + 1) * (lonSegments + 1)
        in indicesLoopI latSegments lonSegments (Suc i)
             (indicesLoopJ lonSegments offset0 offset1 0 panoIndices)
      else panoIndices)"
  by pat_completeness auto
termination
  by (relation "measure (\<lambda>(latSegments, lonSegments, i, panoIndices). latSegments - i)") auto

declare indicesLoopI.simps [simp del]

definition panoIndices :: "nat \<Rightarrow> nat \<Rightarrow> nat list" where
  "panoIndices latSegments lonSegments = indicesLoopI latSegments lonSegments 0 []"

text \<open>
  What the loops push, cell by cell: the index list is compared with these below.
\<close>

definition quad :: "nat \<Rightarrow> nat \<Rightarrow> nat \<Rightarrow> nat list" where
  "quad offset0 offset1 j =
     [offset0 + j, offset1 + j, offset0 + j + 1, offset1 + j, offset1 + j + 1, offset0 + j + 1]"

definition cell :: "nat \<Rightarrow> nat \<Rightarrow> nat \<Rightarrow> nat list" where
  "cell N i j = quad (i * (N + 1)) ((i + 1) * (N + 1)) j"

subsection \<open>Typed arrays\<close>

text \<open>
  \<open>new Uint16Array(panoIndices)\<close> converts each number to an unsigned 16-bit integer,
  that is modulo \<open>2 ^ 16\<close>, which is what \<open>of_nat\<close> into \<open>16 word\<close> does.
  \<open>new Float32Array(panoVerts)\<close> keeps the numbers it is given, each rounded by the
  host to single precision.
\<close>

datatype typed_array = Float32Array "js_number list" | Uint16 "16 word list"

definition Uint16Array :: "nat list \<Rightarrow> typed_array" where
  "Uint16Array xs = Uint16 (map of_nat xs)"

text \<open>The integers read back from an array of unsigned 16-bit integers.\<close>

fun elements :: "typed_array \<Rightarrow> nat list option" where
  "elements (Uint16 ws) = Some (map unat ws)"
| "elements (Float32Array fs) = None"

subsection \<open>The graphics context\<close>

text \<open>
  The WebGL context is the renderer's collaborator. The model records every call made
  on it, in order, and keeps the part of its state the renderer relies on: the object
  names it hands out, the buffer bound to each buffer target, the texture bound to
  \<open>TEXTURE_2D\<close>, and the data last stored in each buffer and each texture. The
  renderer selects no texture unit but \<open>TEXTURE0\<close>, the one active from the start, so
  one texture binding is enough. The \<open>WGLUProgram\<close> object wraps the context's shader
  program; its method calls are recorded in the same list.
\<close>

type_synonym handle = nat

type_synonym mat4 = "js_number list"

datatype gl_enum =
    VERTEX_SHADER | FRAGMENT_SHADER
  | ARRAY_BUFFER | ELEMENT_ARRAY_BUFFER | STATIC_DRAW
  | TEXTURE_2D | RGB | UNSIGNED_BYTE
  | TEXTURE_MAG_FILTER | TEXTURE_MIN_FILTER | TEXTURE_WRAP_S | TEXTURE_WRAP_T
  | LINEAR | CLAMP_TO_EDGE
  | FLOAT | TEXTURE0 | TRIANGLES | UNSIGNED_SHORT

text \<open>An \<open>Image\<close> element, with the two properties \<open>setImage\<close> assigns.\<close>

datatype image = Image (crossOrigin: string) (src: string)

text \<open>\<open>glProgram.uniform.name\<close> and \<open>glProgram.attrib.name\<close>.\<close>

datatype slot = Uniform string | Attrib string

datatype gl_call =
    CreateTexture handle
  | CreateBuffer handle
  | New_WGLUProgram handle
  | AttachShaderSource handle string gl_enum
  | BindAttribLocation handle "(string \<times> nat) list"
  | Link handle
  | Use handle
  | BindBuffer gl_enum handle
  | BufferData gl_enum typed_array gl_enum
  | BindTexture gl_enum handle
  | TexImage2D gl_enum nat gl_enum gl_enum gl_enum image
  | TexParameteri gl_enum gl_enum gl_enum
  | UniformMatrix4fv slot bool mat4
  | Uniform1i slot int
  | EnableVertexAttribArray slot
  | VertexAttribPointer slot nat gl_enum bool nat nat
  | ActiveTexture gl_enum
  | DrawElements gl_enum nat gl_enum nat

record gl_context =
  nextHandle :: handle
  arrayBuffer :: "handle option"
  elementArrayBuffer :: "handle option"
  texture2D :: "handle option"
  bufferStore :: "handle \<rightharpoonup> typed_array"
  textureStore :: "handle \<rightharpoonup> image"
  calls :: "gl_call list"

text \<open>
  What a call does to the context besides being recorded: a bind call changes a
  binding, \<open>bufferData\<close> and \<open>texImage2D\<close> store into the object bound to their target
  (and into nothing when none is bound). The other calls change state no claim reads.
\<close>

fun gl_effect :: "gl_call \<Rightarrow> gl_context \<Rightarrow> gl_context" where
  "gl_effect (BindBuffer target b) g =
     (if target = ARRAY_BUFFER then g\<lparr>arrayBuffer := Some b\<rparr>
      else if target = ELEMENT_ARRAY_BUFFER then g\<lparr>elementArrayBuffer := Some b\<rparr>
      else g)"
| "gl_effect (BufferData target srcData usage) g =
     (case (if target = ARRAY_BUFFER then arrayBuffer g
            else if target = ELEMENT_ARRAY_BUFFER then elementArrayBuffer g
            else None) of
        None \<Rightarrow> g
      | Some b \<Rightarrow> g\<lparr>bufferStore := (bufferStore g)(b \<mapsto> srcData)\<rparr>)"
| "gl_effect (BindTexture target t) g =
     (if target = TEXTURE_2D then g\<lparr>texture2D := Some t\<rparr> else g)"
| "gl_effect (TexImage2D target level internalformat format type img) g =
     (case (if target = TEXTURE_2D then texture2D g else None) of
        None \<Rightarrow> g
      | Some t \<Rightarrow> g\<lparr>textureStore := (textureStore g)(t \<mapsto> img)\<rparr>)"
| "gl_effect c g = g"

definition gl_call :: "gl_call \<Rightarrow> gl_context \<Rightarrow> gl_context" where
  "gl_call c g = (gl_effect c g)\<lparr>calls := calls g @ [c]\<rparr>"

definition gl_calls :: "gl_call list \<Rightarrow> gl_context \<Rightarrow> gl_context" where
  "gl_calls cs g = fold gl_call cs g"

text \<open>The three calls that return a new object.\<close>

definition gl_createTexture :: "gl_context \<Rightarrow> handle \<times> gl_context" where
  "gl_createTexture g =
     (nextHandle g, g\<lparr>nextHandle := Suc (nextHandle g),
                       calls := calls g @ [CreateTexture (nextHandle g)]\<rparr>)"

definition gl_createBuffer :: "gl_context \<Rightarrow> handle \<times> gl_context" where
  "gl_createBuffer g =
     (nextHandle g, g\<lparr>nextHandle := Suc (nextHandle g),
                       calls := calls g @ [CreateBuffer (nextHandle g)]\<rparr>)"

definition new_WGLUProgram :: "gl_context \<Rightarrow> handle \<times> gl_context" where
  "new_WGLUProgram g =
     (nextHandle g, g\<lparr>nextHandle := Suc (nextHandle g),
                       calls := calls g @ [New_WGLUProgram (nextHandle g)]\<rparr>)"

text \<open>A context on which nothing has been called yet.\<close>

definition getContext :: gl_context where
  "getContext = \<lparr>nextHandle = 0, arrayBuffer = None, elementArrayBuffer = None,
     texture2D = None, bufferStore = Map.empty, textureStore = Map.empty, calls = []\<rparr>"

subsection \<open>The shader sources\<close>

definition joinLines :: "string list \<Rightarrow> string" where
  "joinLines ls = (case ls of [] \<Rightarrow> [] | l # rest \<Rightarrow> l @ concat (map (\<lambda>x. CHR 0x0A # x) rest))"

definition panoVS :: string where
  "panoVS = joinLines
     [''uniform mat4 projectionMat;'',
      ''uniform mat4 modelViewMat;'',
      ''attribute vec3 position;'',
      ''attribute vec2 texCoord;'',
      ''varying vec2 vTexCoord;'',
      ''void main() {'',
      ''  vTexCoord = texCoord;'',
      ''  gl_Position = projectionMat * modelViewMat * vec4( position, 1.0 );'',
      ''}'']"

definition panoFS :: string where
  "panoFS = joinLines
     [''precision mediump float;'',
      ''uniform sampler2D diffuse;'',
      ''varying vec2 vTexCoord;'',
      ''void main() {'',
      ''  gl_FragColor = texture2D(diffuse, vTexCoord);'',
      ''}'']"

subsection \<open>The constructor\<close>

text \<open>
  The fields of a \<open>Panorama\<close> instance. \<open>this.gl\<close> is the reference to the one context,
  which the model passes alongside; \<open>glProgram\<close> is the identity of the \<open>WGLUProgram\<close>
  object.
\<close>

record panorama =
  texture :: handle
  glProgram :: handle
  vertBuffer :: handle
  indexBuffer :: handle
  indexCount :: nat
  imgElement :: "image option"

definition Panorama :: "gl_context \<Rightarrow> panorama \<times> gl_context" where
  "Panorama gl0 =
     (let (texture, gl1) = gl_createTexture gl0;
          (glProgram, gl2) = new_WGLUProgram gl1;
          gl3 = gl_calls
                  [AttachShaderSource glProgram panoVS VERTEX_SHADER,
                   AttachShaderSource glProgram panoFS FRAGMENT_SHADER,
                   BindAttribLocation glProgram [(''position'', 0), (''texCoord'', 1)],
                   Link glProgram] gl2;
          radius = Num 2;
          latSegments = 40;
          lonSegments = 40;
          verts = panoVerts radius latSegments lonSegments;
          indices = panoIndices latSegments lonSegments;
          (vertBuffer, gl4) = gl_createBuffer gl3;
          gl5 = gl_calls
                  [BindBuffer ARRAY_BUFFER vertBuffer,
                   BufferData ARRAY_BUFFER (Float32Array verts) STATIC_DRAW] gl4;
          (indexBuffer, gl6) = gl_createBuffer gl5;
          gl7 = gl_calls
                  [BindBuffer ELEMENT_ARRAY_BUFFER indexBuffer,
                   BufferData ELEMENT_ARRAY_BUFFER (Uint16Array indices) STATIC_DRAW] gl6
      in (\<lparr>texture = texture, glProgram = glProgram, vertBuffer = vertBuffer,
            indexBuffer = indexBuffer, indexCount = length indices, imgElement = None\<rparr>,
          gl7))"

subsection \<open>The renderer and its surroundings\<close>

text \<open>\<open>ev.message\<close> of an error event; \<open>None\<close> is \<open>undefined\<close>.\<close>

type_synonym message = "string option"

record world =
  pano :: panorama
  gl :: gl_context
  console :: "message list"

text \<open>The world right after \<open>new Panorama(gl)\<close> on the context \<open>gl0\<close>.\<close>

definition newWorld :: "gl_context \<Rightarrow> world" where
  "newWorld gl0 = (let (this, gl') = Panorama gl0 in \<lparr>pano = this, gl = gl', console = []\<rparr>)"

subsection \<open>setImage\<close>

text \<open>
  \<open>setImage(url)\<close> creates the image, sets \<open>crossOrigin\<close> and \<open>src\<close> and returns a
  promise; it changes nothing in the renderer. The host later fires the image's load
  event or its error event, and the handler settles the promise: the load handler
  resolves it with the value of \<open>self.imgElement\<close>, the error handler writes
  \<open>ev.message\<close> to the console and rejects with it. \<open>Returned\<close> is the plain return of
  \<open>render\<close>.
\<close>

datatype outcome = Resolved "image option" | Rejected message | Returned

definition setImage :: "string \<Rightarrow> image" where
  "setImage url = Image ''anonymous'' url"

definition setImage_load :: "image \<Rightarrow> world \<Rightarrow> outcome \<times> world" where
  "setImage_load img w =
     (let self = (pano w)\<lparr>imgElement := Some img\<rparr>;
          gl' = gl_calls
                  [BindTexture TEXTURE_2D (texture self),
                   TexImage2D TEXTURE_2D 0 RGB RGB UNSIGNED_BYTE img,
                   TexParameteri TEXTURE_2D TEXTURE_MAG_FILTER LINEAR,
                   TexParameteri TEXTURE_2D TEXTURE_MIN_FILTER LINEAR,
                   TexParameteri TEXTURE_2D TEXTURE_WRAP_S CLAMP_TO_EDGE,
                   TexParameteri TEXTURE_2D TEXTURE_WRAP_T CLAMP_TO_EDGE] (gl w)
      in (Resolved (imgElement self), w\<lparr>pano := self, gl := gl'\<rparr>))"

definition setImage_error :: "message \<Rightarrow> world \<Rightarrow> outcome \<times> world" where
  "setImage_error ev_message w =
     (Rejected ev_message, w\<lparr>console := console w @ [ev_message]\<rparr>)"

subsection \<open>render\<close>

definition renderCalls :: "panorama \<Rightarrow> mat4 \<Rightarrow> mat4 \<Rightarrow> gl_call list" where
  "renderCalls this projectionMat modelViewMat =
     [Use (glProgram this),
      UniformMatrix4fv (Uniform ''projectionMat'') False projectionMat,
      UniformMatrix4fv (Uniform ''modelViewMat'') False modelViewMat,
      BindBuffer ARRAY_BUFFER (vertBuffer this),
      BindBuffer ELEMENT_ARRAY_BUFFER (indexBuffer this),
      EnableVertexAttribArray (Attrib ''position''),
      EnableVertexAttribArray (Attrib ''texCoord''),
      VertexAttribPointer (Attrib ''position'') 3 FLOAT False 20 0,
      VertexAttribPointer (Attrib ''texCoord'') 2 FLOAT False 20 12,
      ActiveTexture TEXTURE0,
      Uniform1i (Uniform ''diffuse'') 0,
      BindTexture TEXTURE_2D (texture this),
      DrawElements TRIANGLES (indexCount this) UNSIGNED_SHORT 0]"

definition render :: "mat4 \<Rightarrow> mat4 \<Rightarrow> world \<Rightarrow> world" where
  "render projectionMat modelViewMat w =
     (let this = pano w in
      if imgElement this = None then w
      else w\<lparr>gl := gl_calls (renderCalls this projectionMat modelViewMat) (gl w)\<rparr>)"

subsection \<open>Runs\<close>

text \<open>
  What can happen to a renderer after its construction: the load started by
  \<open>setImage(url)\<close> succeeds, it fails with an error event, or \<open>render\<close> is called.
\<close>

datatype event = Loaded string | Failed string message | Render mat4 mat4

fun step :: "event \<Rightarrow> world \<Rightarrow> outcome \<times> world" where
  "step (Loaded url) w = setImage_load (setImage url) w"
| "step (Failed url ev_message) w = setImage_error ev_message w"
| "step (Render projectionMat modelViewMat) w = (Returned, render projectionMat modelViewMat w)"

fun run :: "event list \<Rightarrow> world \<Rightarrow> world" where
  "run [] w = w"
| "run (e # es) w = run es (snd (step e w))"

fun is_load :: "event \<Rightarrow> bool" where
  "is_load (Loaded url) = True"
| "is_load e = False"

text \<open>The url of the last load that succeeded.\<close>

fun lastLoaded :: "event list \<Rightarrow> string option" where
  "lastLoaded [] = None"
| "lastLoaded (e # es) =
     (case lastLoaded es of
        Some url \<Rightarrow> Some url
      | None \<Rightarrow> (case e of Loaded url \<Rightarrow> Some url | _ \<Rightarrow> None))"

text \<open>
  The source has no state variable for the readiness of the texture: the guard of
  \<open>render\<close> reads \<open>imgElement\<close>, and these are its two cases.
\<close>

datatype readiness = Uninitialized | Ready

definition readiness :: "world \<Rightarrow> readiness" where
  "readiness w = (if imgElement (pano w) = None then Uninitialized else Ready)"

text \<open>The identity matrix, as \<open>mat4.create()\<close> returns it.\<close>

definition mat4_create :: mat4 where
  "mat4_create =
     [Num 1, Num 0, Num 0, Num 0,
      Num 0, Num 1, Num 0, Num 0,
      Num 0, Num 0, Num 1, Num 0,
      Num 0, Num 0, Num 0, Num 1]"

subsection \<open>Reading the record of calls\<close>

text \<open>The calls made between an earlier and a later world.\<close>

definition issued :: "world \<Rightarrow> world \<Rightarrow> gl_call list" where
  "issued w w' = drop (length (calls (gl w))) (calls (gl w'))"

fun is_draw :: "gl_call \<Rightarrow> bool" where
  "is_draw (DrawElements mode n ty off) = True"
| "is_draw c = False"

fun is_createTexture :: "gl_call \<Rightarrow> bool" where
  "is_createTexture (CreateTexture h) = True"
| "is_createTexture c = False"

fun is_uniformMatrix :: "gl_call \<Rightarrow> bool" where
  "is_uniformMatrix (UniformMatrix4fv loc tr m) = True"
| "is_uniformMatrix c = False"

definition draws :: "gl_call list \<Rightarrow> gl_call list" where
  "draws cs = filter is_draw cs"

definition uploads :: "gl_call list \<Rightarrow> gl_call list" where
  "uploads cs = filter is_uniformMatrix cs"

section \<open>The mesh\<close>

subsection \<open>How many numbers the loops push\<close>

lemma length_vertsLoopJ:
  "length (vertsLoopJ r L N i st ct j acc) = length acc + 5 * (Suc N - j)"
proof (induction r L N i st ct j acc rule: vertsLoopJ.induct)
  case (1 r L N i st ct j acc)
  show ?case
  proof (cases "j \<le> N")
    case True
    then have "length (vertsLoopJ r L N i st ct j acc) = length acc + 5 + 5 * (Suc N - Suc j)"
      using "1.IH" [OF True refl refl refl refl refl refl refl refl]
      by (subst vertsLoopJ.simps) (simp add: Let_def)
    with True show ?thesis by simp
  next
    case False
    then show ?thesis by (subst vertsLoopJ.simps) simp
  qed
qed

lemma length_vertsLoopI:
  "length (vertsLoopI r L N i acc) = length acc + 5 * (Suc N) * (Suc L - i)"
proof (induction r L N i acc rule: vertsLoopI.induct)
  case (1 r L N i acc)
  show ?case
  proof (cases "i \<le> L")
    case True
    then have "length (vertsLoopI r L N i acc)
        = length acc + 5 * Suc N + 5 * Suc N * (Suc L - Suc i)"
      using "1.IH" [OF True refl refl refl]
      by (subst vertsLoopI.simps) (simp add: Let_def length_vertsLoopJ)
    moreover from True have "Suc L - i = Suc (Suc L - Suc i)" by simp
    ultimately show ?thesis by (simp only: mult_Suc_right)
  next
    case False
    then show ?thesis by (subst vertsLoopI.simps) simp
  qed
qed

lemma length_panoVerts: "length (panoVerts r L N) = 5 * ((L + 1) * (N + 1))"
  by (simp add: panoVerts_def length_vertsLoopI algebra_simps)

lemma vertexCount_panoVerts: "vertexCount (panoVerts r L N) = (L + 1) * (N + 1)"
  by (simp add: vertexCount_def length_panoVerts)

lemma length_indicesLoopJ:
  "length (indicesLoopJ N o0 o1 j acc) = length acc + 6 * (N - j)"
proof (induction N o0 o1 j acc rule: indicesLoopJ.induct)
  case (1 N o0 o1 j acc)
  show ?case
  proof (cases "j < N")
    case True
    then have "length (indicesLoopJ N o0 o1 j acc) = length acc + 6 + 6 * (N - Suc j)"
      using "1.IH" [OF True refl refl]
      by (subst indicesLoopJ.simps) (simp add: Let_def)
    with True show ?thesis by simp
  next
    case False
    then show ?thesis by (subst indicesLoopJ.simps) simp
  qed
qed

lemma length_indicesLoopI:
  "length (indicesLoopI L N i acc) = length acc + 6 * N * (L - i)"
proof (induction L N i acc rule: indicesLoopI.induct)
  case (1 L N i acc)
  show ?case
  proof (cases "i < L")
    case True
    then have "length (indicesLoopI L N i acc) = length acc + 6 * N + 6 * N * (L - Suc i)"
      using "1.IH" [OF True refl refl]
      by (subst indicesLoopI.simps) (simp add: Let_def length_indicesLoopJ)
    moreover from True have "L - i = Suc (L - Suc i)" by simp
    ultimately show ?thesis by (simp only: mult_Suc_right)
  next
    case False
    then show ?thesis by (subst indicesLoopI.simps) simp
  qed
qed

lemma length_panoIndices: "length (panoIndices L N) = 6 * L * N"
  by (simp add: panoIndices_def length_indicesLoopI mult.commute mult.left_commute)

subsection \<open>Which indices the loops push\<close>

lemma indicesLoopJ_eq:
  "j \<le> N \<Longrightarrow> indicesLoopJ N o0 o1 j acc = acc @ concat (map (quad o0 o1) [j..<N])"
proof (induction N o0 o1 j acc rule: indicesLoopJ.induct)
  case (1 N o0 o1 j acc)
  show ?case
  proof (cases "j < N")
    case True
    have q: "[o0 + j, o1 + j, o0 + j + 1, o1 + j, o1 + j + 1, o0 + j + 1] = quad o0 o1 j"
      by (simp only: quad_def)
    have "indicesLoopJ N o0 o1 j acc = indicesLoopJ N o0 o1 (Suc j) (acc @ quad o0 o1 j)"
      using True by (subst indicesLoopJ.simps) (simp only: Let_def if_True q)
    also have "\<dots> = (acc @ quad o0 o1 j) @ concat (map (quad o0 o1) [Suc j..<N])"
      using "1.IH" [OF True refl refl, unfolded q] True by simp
    finally show ?thesis using True by (simp add: upt_conv_Cons)
  next
    case False
    with "1.prems" show ?thesis by (subst indicesLoopJ.simps) simp
  qed
qed

lemma indicesLoopI_eq:
  "i \<le> L \<Longrightarrow> indicesLoopI L N i acc
     = acc @ concat (map (\<lambda>i. concat (map (cell N i) [0..<N])) [i..<L])"
proof (induction L N i acc rule: indicesLoopI.induct)
  case (1 L N i acc)
  show ?case
  proof (cases "i < L")
    case True
    have row: "indicesLoopJ N (i * (N + 1)) ((i + 1) * (N + 1)) 0 acc
        = acc @ concat (map (cell N i) [0..<N])"
    proof -
      have "cell N i = quad (i * (N + 1)) ((i + 1) * (N + 1))"
        by (rule ext) (simp only: cell_def)
      then show ?thesis by (simp only: indicesLoopJ_eq [OF le0])
    qed
    have "indicesLoopI L N i acc
        = indicesLoopI L N (Suc i) (acc @ concat (map (cell N i) [0..<N]))"
      using True by (subst indicesLoopI.simps) (simp only: Let_def if_True row)
    also have "\<dots> = (acc @ concat (map (cell N i) [0..<N]))
          @ concat (map (\<lambda>i. concat (map (cell N i) [0..<N])) [Suc i..<L])"
      using "1.IH" [OF True refl refl, unfolded row] True by simp
    finally show ?thesis using True by (simp add: upt_conv_Cons)
  next
    case False
    with "1.prems" show ?thesis by (subst indicesLoopI.simps) simp
  qed
qed

lemma panoIndices_eq:
  "panoIndices L N = concat (map (\<lambda>i. concat (map (cell N i) [0..<N])) [0..<L])"
  by (simp add: panoIndices_def indicesLoopI_eq)

lemma set_panoIndices:
  "set (panoIndices L N) = (\<Union>i \<in> {0..<L}. \<Union>j \<in> {0..<N}. set (cell N i j))"
  by (simp add: panoIndices_eq)

lemma cell_bound:
  assumes "i < L" and "j < N" and "k \<in> set (cell N i j)"
  shows "k < (L + 1) * (N + 1)"
proof -
  from assms(3) have "k \<le> (i + 1) * (N + 1) + j + 1"
    by (auto simp: cell_def quad_def)
  also from assms(2) have "\<dots> < (i + 1) * (N + 1) + (N + 1)" by simp
  also have "\<dots> = (i + 2) * (N + 1)" by simp
  also from assms(1) have "\<dots> \<le> (L + 1) * (N + 1)"
    by (intro mult_le_mono1) simp
  finally show ?thesis .
qed

lemma panoIndices_bound:
  assumes "k \<in> set (panoIndices L N)"
  shows "k < (L + 1) * (N + 1)"
proof -
  from assms obtain i j where "i < L" and "j < N" and "k \<in> set (cell N i j)"
    unfolding set_panoIndices by auto
  then show ?thesis by (rule cell_bound)
qed

subsection \<open>The counts of the mesh\<close>

text \<open>
  Claim C1. For all segment counts \<open>L \<ge> 1\<close> and \<open>N \<ge> 1\<close> the loops produce
  \<open>(L + 1) * (N + 1)\<close> vertices and \<open>6 * L * N\<close> indices, and every index is below the
  number of vertices. The radius plays no part.
\<close>

theorem mesh_counts:
  assumes "1 \<le> L" and "1 \<le> N"
  shows "vertexCount (panoVerts radius L N) = (L + 1) * (N + 1)
       \<and> length (panoIndices L N) = 6 * L * N
       \<and> (\<forall>k \<in> set (panoIndices L N). k < vertexCount (panoVerts radius L N))"
proof (intro conjI ballI)
  show "vertexCount (panoVerts radius L N) = (L + 1) * (N + 1)"
    by (rule vertexCount_panoVerts)
  show "length (panoIndices L N) = 6 * L * N"
    by (rule length_panoIndices)
  show "k < vertexCount (panoVerts radius L N)" if "k \<in> set (panoIndices L N)" for k
    using that by (simp only: vertexCount_panoVerts panoIndices_bound)
qed

theorem mesh_counts_witness:
  "(1::nat) \<le> 1 \<and> (1::nat) \<le> 2
   \<and> vertexCount (panoVerts (Num 2) 1 2) = 6
   \<and> panoIndices 1 2 = [0, 3, 1, 3, 4, 1, 1, 4, 2, 4, 5, 2]
   \<and> length (panoIndices 1 2) = 12
   \<and> 5 \<in> set (panoIndices 1 2) \<and> 5 < vertexCount (panoVerts (Num 2) 1 2)"
proof -
  have e: "panoIndices 1 2 = [0, 3, 1, 3, 4, 1, 1, 4, 2, 4, 5, 2]"
    by code_simp
  have m: "(5::nat) \<in> set (panoIndices 1 2)"
    by (subst e) simp
  from mesh_counts [of 1 2 "Num 2"] m e show ?thesis
    by auto
qed

section \<open>The renderer\<close>

subsection \<open>Calls, constructor, handlers\<close>

lemma calls_gl_call: "calls (gl_call c g) = calls g @ [c]"
  by (simp add: gl_call_def)

lemma calls_gl_calls: "calls (gl_calls cs g) = calls g @ cs"
  unfolding gl_calls_def by (induction cs arbitrary: g) (simp_all add: calls_gl_call)

lemma pano_newWorld:
  "pano (newWorld g) =
     \<lparr>texture = nextHandle g, glProgram = Suc (nextHandle g), vertBuffer = Suc (Suc (nextHandle g)),
      indexBuffer = Suc (Suc (Suc (nextHandle g))), indexCount = length (panoIndices 40 40),
      imgElement = None\<rparr>"
  by (simp add: newWorld_def Panorama_def gl_createTexture_def new_WGLUProgram_def
      gl_createBuffer_def Let_def gl_calls_def gl_call_def)

lemma calls_newWorld:
  "calls (gl (newWorld g)) = calls g @
     [CreateTexture (nextHandle g),
      New_WGLUProgram (Suc (nextHandle g)),
      AttachShaderSource (Suc (nextHandle g)) panoVS VERTEX_SHADER,
      AttachShaderSource (Suc (nextHandle g)) panoFS FRAGMENT_SHADER,
      BindAttribLocation (Suc (nextHandle g)) [(''position'', 0), (''texCoord'', 1)],
      Link (Suc (nextHandle g)),
      CreateBuffer (Suc (Suc (nextHandle g))),
      BindBuffer ARRAY_BUFFER (Suc (Suc (nextHandle g))),
      BufferData ARRAY_BUFFER (Float32Array (panoVerts (Num 2) 40 40)) STATIC_DRAW,
      CreateBuffer (Suc (Suc (Suc (nextHandle g)))),
      BindBuffer ELEMENT_ARRAY_BUFFER (Suc (Suc (Suc (nextHandle g)))),
      BufferData ELEMENT_ARRAY_BUFFER (Uint16Array (panoIndices 40 40)) STATIC_DRAW]"
  by (simp add: newWorld_def Panorama_def gl_createTexture_def new_WGLUProgram_def
      gl_createBuffer_def Let_def gl_calls_def gl_call_def)

lemma stores_newWorld:
  "bufferStore (gl (newWorld g)) =
     (bufferStore g)(Suc (Suc (nextHandle g)) \<mapsto> Float32Array (panoVerts (Num 2) 40 40),
                     Suc (Suc (Suc (nextHandle g))) \<mapsto> Uint16Array (panoIndices 40 40))"
  "textureStore (gl (newWorld g)) = textureStore g"
  "elementArrayBuffer (gl (newWorld g)) = Some (Suc (Suc (Suc (nextHandle g))))"
  "arrayBuffer (gl (newWorld g)) = Some (Suc (Suc (nextHandle g)))"
  "console (newWorld g) = []"
  by (simp_all add: newWorld_def Panorama_def gl_createTexture_def new_WGLUProgram_def
      gl_createBuffer_def Let_def gl_calls_def gl_call_def)

lemmas world_defs = render_def setImage_load_def setImage_error_def gl_calls_def gl_call_def
  renderCalls_def Let_def

lemma pano_render: "pano (render P V w) = pano w"
  by (simp add: render_def Let_def)

lemma console_render: "console (render P V w) = console w"
  by (simp add: render_def Let_def)

lemma calls_render:
  "calls (gl (render P V w)) =
     calls (gl w) @ (if imgElement (pano w) = None then [] else renderCalls (pano w) P V)"
  by (simp add: render_def Let_def calls_gl_calls)

lemma issued_render:
  "issued w (render P V w) = (if imgElement (pano w) = None then [] else renderCalls (pano w) P V)"
  by (simp add: issued_def calls_render)

lemma stores_render:
  "textureStore (gl (render P V w)) = textureStore (gl w)"
  "bufferStore (gl (render P V w)) = bufferStore (gl w)"
  by (simp_all add: world_defs)

lemma bindings_render:
  "imgElement (pano w) \<noteq> None \<Longrightarrow> texture2D (gl (render P V w)) = Some (texture (pano w))"
  "imgElement (pano w) \<noteq> None \<Longrightarrow>
     elementArrayBuffer (gl (render P V w)) = Some (indexBuffer (pano w))"
  by (auto simp add: world_defs)

lemma load_pano: "pano (snd (setImage_load img w)) = (pano w)\<lparr>imgElement := Some img\<rparr>"
  by (simp add: setImage_load_def Let_def)

lemma load_calls:
  "calls (gl (snd (setImage_load img w))) = calls (gl w) @
     [BindTexture TEXTURE_2D (texture (pano w)),
      TexImage2D TEXTURE_2D 0 RGB RGB UNSIGNED_BYTE img,
      TexParameteri TEXTURE_2D TEXTURE_MAG_FILTER LINEAR,
      TexParameteri TEXTURE_2D TEXTURE_MIN_FILTER LINEAR,
      TexParameteri TEXTURE_2D TEXTURE_WRAP_S CLAMP_TO_EDGE,
      TexParameteri TEXTURE_2D TEXTURE_WRAP_T CLAMP_TO_EDGE]"
  by (simp add: setImage_load_def Let_def calls_gl_calls)

lemma load_stores:
  "textureStore (gl (snd (setImage_load img w))) = (textureStore (gl w))(texture (pano w) \<mapsto> img)"
  "bufferStore (gl (snd (setImage_load img w))) = bufferStore (gl w)"
  by (simp_all add: world_defs)

lemma step_static:
  "texture (pano (snd (step e w))) = texture (pano w)"
  "glProgram (pano (snd (step e w))) = glProgram (pano w)"
  "vertBuffer (pano (snd (step e w))) = vertBuffer (pano w)"
  "indexBuffer (pano (snd (step e w))) = indexBuffer (pano w)"
  "indexCount (pano (snd (step e w))) = indexCount (pano w)"
  "bufferStore (gl (snd (step e w))) = bufferStore (gl w)"
  by (cases e; simp add: load_pano pano_render setImage_error_def load_stores stores_render)+

lemma run_static:
  "texture (pano (run evs w)) = texture (pano w)"
  "glProgram (pano (run evs w)) = glProgram (pano w)"
  "vertBuffer (pano (run evs w)) = vertBuffer (pano w)"
  "indexBuffer (pano (run evs w)) = indexBuffer (pano w)"
  "indexCount (pano (run evs w)) = indexCount (pano w)"
  "bufferStore (gl (run evs w)) = bufferStore (gl w)"
  by (induction evs arbitrary: w; simp add: step_static)+

lemma run_append: "run (es @ fs) w = run fs (run es w)"
  by (induction es arbitrary: w) simp_all

lemma run_imgElement:
  "imgElement (pano (run evs w)) =
     (case lastLoaded evs of None \<Rightarrow> imgElement (pano w) | Some url \<Rightarrow> Some (setImage url))"
proof (induction evs arbitrary: w)
  case Nil
  show ?case by simp
next
  case (Cons e es)
  show ?case
    by (cases e)
       (simp_all add: Cons.IH load_pano pano_render setImage_error_def split: option.splits)
qed

lemma run_textureStore:
  "textureStore (gl (run evs w)) =
     (case lastLoaded evs of
        None \<Rightarrow> textureStore (gl w)
      | Some url \<Rightarrow> (textureStore (gl w))(texture (pano w) \<mapsto> setImage url))"
proof (induction evs arbitrary: w)
  case Nil
  show ?case by simp
next
  case (Cons e es)
  show ?case
    by (cases e)
       (simp_all add: Cons.IH load_pano pano_render setImage_error_def load_stores stores_render
          split: option.splits)
qed

lemma lastLoaded_None: "lastLoaded evs = None \<longleftrightarrow> (\<forall>e \<in> set evs. \<not> is_load e)"
proof (induction evs)
  case Nil
  show ?case by simp
next
  case (Cons e es)
  then show ?case by (cases e) (auto split: option.splits)
qed

lemma step_createTexture:
  "filter is_createTexture (calls (gl (snd (step e w)))) = filter is_createTexture (calls (gl w))"
  by (cases e) (simp_all add: load_calls calls_render renderCalls_def setImage_error_def)

lemma run_createTexture:
  "filter is_createTexture (calls (gl (run evs w))) = filter is_createTexture (calls (gl w))"
  by (induction evs arbitrary: w) (simp_all add: step_createTexture)

lemma run_calls_prefix: "\<exists>cs. calls (gl (run evs w)) = calls (gl w) @ cs"
proof (induction evs arbitrary: w)
  case Nil
  show ?case by simp
next
  case (Cons e es)
  obtain cs where "calls (gl (run es (snd (step e w)))) = calls (gl (snd (step e w))) @ cs"
    using Cons.IH by blast
  moreover have "\<exists>ds. calls (gl (snd (step e w))) = calls (gl w) @ ds"
    by (cases e) (simp_all add: load_calls calls_render setImage_error_def)
  ultimately show ?case by auto
qed

subsection \<open>render before any load\<close>

text \<open>
  Claim C2. As long as no load event has fired since the construction, whatever else
  has happened (failed loads, earlier calls of render), \<open>render\<close> with any two matrices
  returns at once and leaves the world as it is: it makes no call on the graphics
  context, so no draw call.
\<close>

theorem render_before_any_load:
  assumes "\<forall>e \<in> set evs. \<not> is_load e"
  shows "step (Render projectionMat modelViewMat) (run evs (newWorld gl0))
           = (Returned, run evs (newWorld gl0))
       \<and> issued (run evs (newWorld gl0))
            (render projectionMat modelViewMat (run evs (newWorld gl0))) = []"
proof -
  from assms have "lastLoaded evs = None"
    by (simp add: lastLoaded_None)
  then have "imgElement (pano (run evs (newWorld gl0))) = None"
    by (simp add: run_imgElement pano_newWorld)
  then show ?thesis
    by (simp add: render_def issued_def)
qed

theorem render_before_any_load_witness:
  "\<not> is_load (Failed ''missing.jpg'' None) \<and> \<not> is_load (Render mat4_create mat4_create)
   \<and> step (Render mat4_create mat4_create)
        (run [Failed ''missing.jpg'' None, Render mat4_create mat4_create] (newWorld getContext))
      = (Returned,
         run [Failed ''missing.jpg'' None, Render mat4_create mat4_create] (newWorld getContext))
   \<and> issued (run [Failed ''missing.jpg'' None, Render mat4_create mat4_create] (newWorld getContext))
        (render mat4_create mat4_create
          (run [Failed ''missing.jpg'' None, Render mat4_create mat4_create] (newWorld getContext)))
      = []"
proof -
  have h: "\<forall>e \<in> set [Failed ''missing.jpg'' None, Render mat4_create mat4_create]. \<not> is_load e"
    by simp
  have "\<not> is_load (Failed ''missing.jpg'' None)" and "\<not> is_load (Render mat4_create mat4_create)"
    by simp_all
  with render_before_any_load [OF h, of mat4_create mat4_create getContext]
  show ?thesis by blast
qed

subsection \<open>render after a load\<close>

lemma uploads_renderCalls:
  "uploads (renderCalls this P V) =
     [UniformMatrix4fv (Uniform ''projectionMat'') False P,
      UniformMatrix4fv (Uniform ''modelViewMat'') False V]"
  by (simp add: uploads_def renderCalls_def)

lemma draws_renderCalls:
  "draws (renderCalls this P V) = [DrawElements TRIANGLES (indexCount this) UNSIGNED_SHORT 0]"
  by (simp add: draws_def renderCalls_def)

lemma lastLoaded_mem: "Loaded url \<in> set evs \<Longrightarrow> \<exists>u. lastLoaded evs = Some u"
  using lastLoaded_None [of evs] by (cases "lastLoaded evs") force+

lemma loaded_imgElement:
  "Loaded url \<in> set evs \<Longrightarrow> imgElement (pano (run evs w)) \<noteq> None"
  using lastLoaded_mem [of url evs] by (auto simp: run_imgElement)

lemma length_panoIndices_40: "length (panoIndices 40 40) = 9600"
  by (simp add: length_panoIndices)

lemma reachable_indexCount: "indexCount (pano (run evs (newWorld g))) = 9600"
  by (simp add: run_static pano_newWorld length_panoIndices_40)

lemma reachable_indexBuffer:
  "bufferStore (gl (run evs (newWorld g))) (indexBuffer (pano (run evs (newWorld g))))
     = Some (Uint16Array (panoIndices 40 40))"
  by (simp add: run_static pano_newWorld stores_newWorld)

text \<open>
  Claim C3. Once a load event has fired, every call of \<open>render\<close> uploads its projection
  matrix and its view matrix as the two matrix uniforms and makes one draw call, for
  all 9600 recorded indices from offset 0. The same holds for the second of two calls
  in a row with projection matrices \<open>Pl\<close>, \<open>Pr\<close> and one view matrix \<open>V\<close>: each call
  uploads its own projection matrix and \<open>V\<close>, and draws the same number of indices.
  At the draw call the element array buffer bound is the index buffer, which holds the
  index list.
\<close>

theorem render_after_load:
  assumes "Loaded url \<in> set evs"
  shows "let w = run evs (newWorld gl0); wl = render Pl V w; wr = render Pr V wl in
           uploads (issued w wl) =
             [UniformMatrix4fv (Uniform ''projectionMat'') False Pl,
              UniformMatrix4fv (Uniform ''modelViewMat'') False V]
         \<and> draws (issued w wl) = [DrawElements TRIANGLES 9600 UNSIGNED_SHORT 0]
         \<and> uploads (issued wl wr) =
             [UniformMatrix4fv (Uniform ''projectionMat'') False Pr,
              UniformMatrix4fv (Uniform ''modelViewMat'') False V]
         \<and> draws (issued wl wr) = [DrawElements TRIANGLES 9600 UNSIGNED_SHORT 0]
         \<and> indexCount (pano w) = 9600
         \<and> length (panoIndices 40 40) = 9600
         \<and> elementArrayBuffer (gl wl) = Some (indexBuffer (pano w))
         \<and> bufferStore (gl wl) (indexBuffer (pano w)) = Some (Uint16Array (panoIndices 40 40))"
proof -
  define w where "w = run evs (newWorld gl0)"
  obtain i where img: "imgElement (pano w) = Some i"
    unfolding w_def using loaded_imgElement [OF assms] by blast
  have cnt: "indexCount (pano w) = 9600"
    unfolding w_def by (rule reachable_indexCount)
  have buf: "bufferStore (gl w) (indexBuffer (pano w)) = Some (Uint16Array (panoIndices 40 40))"
    unfolding w_def by (rule reachable_indexBuffer)
  have first: "issued w (render Pl V w) = renderCalls (pano w) Pl V"
    using img by (simp add: issued_render)
  have second: "issued (render Pl V w) (render Pr V (render Pl V w)) = renderCalls (pano w) Pr V"
    using img by (simp add: issued_render pano_render)
  show ?thesis
    unfolding Let_def w_def [symmetric] first second
    using img cnt buf
    by (simp add: uploads_renderCalls draws_renderCalls length_panoIndices_40 bindings_render
        stores_render)
qed

theorem render_after_load_witness:
  "Loaded ''media/textures/kla_office_1.jpg'' \<in> set [Loaded ''media/textures/kla_office_1.jpg'']
   \<and> draws (issued (run [Loaded ''media/textures/kla_office_1.jpg''] (newWorld getContext))
        (render mat4_create mat4_create
          (run [Loaded ''media/textures/kla_office_1.jpg''] (newWorld getContext))))
       = [DrawElements TRIANGLES 9600 UNSIGNED_SHORT 0]
   \<and> uploads (issued (run [Loaded ''media/textures/kla_office_1.jpg''] (newWorld getContext))
        (render mat4_create mat4_create
          (run [Loaded ''media/textures/kla_office_1.jpg''] (newWorld getContext))))
       = [UniformMatrix4fv (Uniform ''projectionMat'') False mat4_create,
          UniformMatrix4fv (Uniform ''modelViewMat'') False mat4_create]"
proof -
  have h: "Loaded ''media/textures/kla_office_1.jpg'' \<in> set [Loaded ''media/textures/kla_office_1.jpg'']"
    by simp
  from render_after_load [OF h, of getContext mat4_create mat4_create mat4_create] h
  show ?thesis unfolding Let_def by blast
qed

subsection \<open>A load that fails\<close>

lemma reachable_texture:
  "lastLoaded evs = Some u \<Longrightarrow>
     textureStore (gl (run evs (newWorld g))) (texture (pano (run evs (newWorld g))))
       = Some (setImage u)"
  by (simp add: run_textureStore run_static)

text \<open>
  Claim C4, as the specification states it, fails: an error event after an earlier
  successful load leaves \<open>imgElement\<close> set, so the renderer is still ready and the next
  \<open>render\<close> draws.
\<close>

theorem failed_load_after_success_counterexample:
  "\<not> (readiness (run [Loaded ''a.jpg'', Failed ''b.jpg'' None] (newWorld getContext))
        = Uninitialized
      \<and> draws (issued (run [Loaded ''a.jpg'', Failed ''b.jpg'' None] (newWorld getContext))
           (render mat4_create mat4_create
             (run [Loaded ''a.jpg'', Failed ''b.jpg'' None] (newWorld getContext)))) = [])"
proof -
  have "imgElement (pano (run [Loaded ''a.jpg'', Failed ''b.jpg'' None] (newWorld getContext)))
      = Some (setImage ''a.jpg'')"
    by (simp add: run_imgElement del: run.simps)
  then show ?thesis
    by (simp add: readiness_def del: run.simps)
qed

text \<open>
  Claim C4, amended. When a load fails, the promise is rejected with \<open>ev.message\<close> and
  the readiness of the renderer is what it was before. If no load has succeeded since
  the construction, the renderer is therefore still uninitialised and the next \<open>render\<close>
  makes no call on the graphics context.
\<close>

theorem failed_load_rejects:
  "let w = run evs (newWorld gl0); w' = snd (step (Failed url m) w) in
     fst (step (Failed url m) w) = Rejected m
     \<and> readiness w' = readiness w
     \<and> ((\<forall>e \<in> set evs. \<not> is_load e) \<longrightarrow>
          readiness w' = Uninitialized
          \<and> render projectionMat modelViewMat w' = w'
          \<and> draws (issued w' (render projectionMat modelViewMat w')) = [])"
proof -
  define w where "w = run evs (newWorld gl0)"
  have "imgElement (pano w) = None" if "\<forall>e \<in> set evs. \<not> is_load e"
  proof -
    from that have "lastLoaded evs = None" by (simp add: lastLoaded_None)
    then show ?thesis by (simp add: w_def run_imgElement pano_newWorld)
  qed
  then show ?thesis
    unfolding Let_def w_def [symmetric]
    by (simp add: setImage_error_def readiness_def render_def issued_def draws_def)
qed

theorem failed_load_rejects_witness:
  "\<not> is_load (Render mat4_create mat4_create)
   \<and> fst (step (Failed ''b.jpg'' (Some ''not found''))
        (run [Render mat4_create mat4_create] (newWorld getContext)))
       = Rejected (Some ''not found'')
   \<and> readiness (snd (step (Failed ''b.jpg'' (Some ''not found''))
        (run [Render mat4_create mat4_create] (newWorld getContext)))) = Uninitialized
   \<and> draws (issued
        (snd (step (Failed ''b.jpg'' (Some ''not found''))
          (run [Render mat4_create mat4_create] (newWorld getContext))))
        (render mat4_create mat4_create
          (snd (step (Failed ''b.jpg'' (Some ''not found''))
            (run [Render mat4_create mat4_create] (newWorld getContext)))))) = []"
proof -
  have h: "\<forall>e \<in> set [Render mat4_create mat4_create]. \<not> is_load e"
    by simp
  have n: "\<not> is_load (Render mat4_create mat4_create)"
    by simp
  from failed_load_rejects
    [of "[Render mat4_create mat4_create]" getContext "''b.jpg''" "Some ''not found''"
      mat4_create mat4_create] h n
  show ?thesis unfolding Let_def by blast
qed

text \<open>
  Claim C10. The error handler makes no call on the graphics context and assigns no
  field of the renderer. So when a load had succeeded before, the renderer is still
  ready after the failure, \<open>imgElement\<close> is still the image of the last successful load,
  and \<open>render\<close> still makes its one draw call, with the renderer's texture bound, which
  still holds that image.
\<close>

theorem failed_load_keeps_texture:
  "let w = run evs (newWorld gl0); w' = snd (step (Failed url m) w);
       w'' = render projectionMat modelViewMat w' in
     issued w w' = [] \<and> gl w' = gl w \<and> pano w' = pano w
     \<and> (\<forall>u. lastLoaded evs = Some u \<longrightarrow>
          readiness w' = Ready
          \<and> imgElement (pano w') = Some (setImage u)
          \<and> draws (issued w' w'') = [DrawElements TRIANGLES 9600 UNSIGNED_SHORT 0]
          \<and> texture2D (gl w'') = Some (texture (pano w'))
          \<and> textureStore (gl w'') (texture (pano w')) = Some (setImage u))"
proof -
  define w where "w = run evs (newWorld gl0)"
  define w' where "w' = snd (step (Failed url m) w)"
  have same: "gl w' = gl w" "pano w' = pano w"
    by (simp_all add: w'_def setImage_error_def)
  have none: "issued w w' = []"
    by (simp add: issued_def same)
  have after: "readiness w' = Ready \<and> imgElement (pano w') = Some (setImage u)
      \<and> draws (issued w' (render projectionMat modelViewMat w'))
          = [DrawElements TRIANGLES 9600 UNSIGNED_SHORT 0]
      \<and> texture2D (gl (render projectionMat modelViewMat w')) = Some (texture (pano w'))
      \<and> textureStore (gl (render projectionMat modelViewMat w')) (texture (pano w'))
          = Some (setImage u)"
    if u: "lastLoaded evs = Some u" for u
  proof -
    have img: "imgElement (pano w') = Some (setImage u)"
      by (simp add: same w_def run_imgElement u)
    have cnt: "indexCount (pano w') = 9600"
      by (simp add: same w_def reachable_indexCount)
    have tex: "textureStore (gl w') (texture (pano w')) = Some (setImage u)"
      unfolding same w_def using u by (rule reachable_texture)
    from img cnt tex show ?thesis
      by (simp add: readiness_def issued_render draws_renderCalls bindings_render stores_render)
  qed
  show ?thesis
    unfolding Let_def w_def [symmetric] w'_def [symmetric]
    using same none after by blast
qed

theorem failed_load_keeps_texture_witness:
  "lastLoaded [Loaded ''a.jpg''] = Some ''a.jpg''
   \<and> readiness (snd (step (Failed ''b.jpg'' None) (run [Loaded ''a.jpg''] (newWorld getContext))))
       = Ready
   \<and> imgElement (pano (snd (step (Failed ''b.jpg'' None)
        (run [Loaded ''a.jpg''] (newWorld getContext))))) = Some (Image ''anonymous'' ''a.jpg'')
   \<and> draws (issued
        (snd (step (Failed ''b.jpg'' None) (run [Loaded ''a.jpg''] (newWorld getContext))))
        (render mat4_create mat4_create
          (snd (step (Failed ''b.jpg'' None) (run [Loaded ''a.jpg''] (newWorld getContext))))))
       = [DrawElements TRIANGLES 9600 UNSIGNED_SHORT 0]"
proof -
  have h: "lastLoaded [Loaded ''a.jpg''] = Some ''a.jpg''"
    by simp
  from failed_load_keeps_texture
    [of "[Loaded ''a.jpg'']" getContext "''b.jpg''" None mat4_create mat4_create] h
  show ?thesis unfolding Let_def setImage_def by blast
qed

subsection \<open>render changes nothing in the renderer\<close>

lemma pano_render_funpow: "pano ((render P V ^^ n) w) = pano w"
  by (induction n) (simp_all add: pano_render)

text \<open>
  Claim C5. \<open>render\<close> assigns no field of the renderer, and writes nothing to the
  console. The calls it makes depend on those fields and on the two matrices only, so
  after any number of calls with the same two matrices one more call makes the same
  calls as the first.
\<close>

theorem render_leaves_renderer:
  "pano (render projectionMat modelViewMat w) = pano w
   \<and> console (render projectionMat modelViewMat w) = console w
   \<and> issued ((render projectionMat modelViewMat ^^ n) w)
        ((render projectionMat modelViewMat ^^ Suc n) w)
       = issued w (render projectionMat modelViewMat w)"
proof (intro conjI)
  show "pano (render projectionMat modelViewMat w) = pano w"
    by (rule pano_render)
  show "console (render projectionMat modelViewMat w) = console w"
    by (rule console_render)
  have "pano ((render projectionMat modelViewMat ^^ n) w) = pano w"
    by (rule pano_render_funpow)
  then show "issued ((render projectionMat modelViewMat ^^ n) w)
        ((render projectionMat modelViewMat ^^ Suc n) w)
       = issued w (render projectionMat modelViewMat w)"
    by (simp add: issued_render)
qed

theorem render_leaves_renderer_witness:
  "pano (render mat4_create mat4_create (run [Loaded ''a.jpg''] (newWorld getContext)))
     = pano (run [Loaded ''a.jpg''] (newWorld getContext))
   \<and> issued ((render mat4_create mat4_create ^^ 2) (run [Loaded ''a.jpg''] (newWorld getContext)))
        ((render mat4_create mat4_create ^^ Suc 2) (run [Loaded ''a.jpg''] (newWorld getContext)))
       = issued (run [Loaded ''a.jpg''] (newWorld getContext))
           (render mat4_create mat4_create (run [Loaded ''a.jpg''] (newWorld getContext)))
   \<and> draws (issued (run [Loaded ''a.jpg''] (newWorld getContext))
        (render mat4_create mat4_create (run [Loaded ''a.jpg''] (newWorld getContext))))
       = [DrawElements TRIANGLES 9600 UNSIGNED_SHORT 0]"
proof -
  have "imgElement (pano (run [Loaded ''a.jpg''] (newWorld getContext)))
      = Some (setImage ''a.jpg'')"
    by (simp add: run_imgElement del: run.simps)
  then have "draws (issued (run [Loaded ''a.jpg''] (newWorld getContext))
        (render mat4_create mat4_create (run [Loaded ''a.jpg''] (newWorld getContext))))
       = [DrawElements TRIANGLES 9600 UNSIGNED_SHORT 0]"
    by (simp add: issued_render draws_renderCalls reachable_indexCount del: run.simps)
  with render_leaves_renderer
    [of mat4_create mat4_create "run [Loaded ''a.jpg''] (newWorld getContext)" 2]
  show ?thesis by blast
qed

subsection \<open>The texture object\<close>

lemma step_issued_no_createTexture:
  "filter is_createTexture (issued w (snd (step e w))) = []"
  by (cases e)
     (simp_all add: issued_def load_calls calls_render renderCalls_def setImage_error_def)

lemma reachable_createTexture:
  "filter is_createTexture (drop (length (calls g)) (calls (gl (run evs (newWorld g)))))
     = [CreateTexture (nextHandle g)]"
proof -
  obtain cs where cs: "calls (gl (run evs (newWorld g))) = calls (gl (newWorld g)) @ cs"
    using run_calls_prefix by blast
  have "filter is_createTexture (calls (gl (newWorld g)) @ cs)
      = filter is_createTexture (calls (gl (newWorld g)))"
    using run_createTexture [of evs "newWorld g"] by (simp only: cs)
  then have "filter is_createTexture cs = []"
    by simp
  then show ?thesis
    by (simp add: cs calls_newWorld)
qed

text \<open>
  Claim C8. The renderer's texture is the object \<open>createTexture\<close> returned in the
  constructor, and \<open>createTexture\<close> is called that once and never again, whatever
  happens afterwards. A load handler binds that texture and stores the new image into
  it: of all textures only the renderer's changes, and it holds the new image in place
  of the old one.
\<close>

theorem texture_allocated_once:
  "let w = run evs (newWorld gl0); w' = snd (step (Loaded url) w) in
     texture (pano w) = nextHandle gl0
     \<and> texture (pano w') = texture (pano w)
     \<and> filter is_createTexture (drop (length (calls gl0)) (calls (gl w')))
         = [CreateTexture (nextHandle gl0)]
     \<and> filter is_createTexture (issued w w') = []
     \<and> textureStore (gl w') = (textureStore (gl w))(texture (pano w) \<mapsto> setImage url)"
proof -
  define w where "w = run evs (newWorld gl0)"
  define w' where "w' = snd (step (Loaded url) w)"
  have w': "w' = run (evs @ [Loaded url]) (newWorld gl0)"
    by (simp add: w'_def w_def run_append)
  have "texture (pano w) = nextHandle gl0"
    by (simp add: w_def run_static pano_newWorld)
  moreover have "texture (pano w') = texture (pano w)"
    unfolding w'_def by (rule step_static)
  moreover have "filter is_createTexture (drop (length (calls gl0)) (calls (gl w')))
      = [CreateTexture (nextHandle gl0)]"
    unfolding w' by (rule reachable_createTexture)
  moreover have "filter is_createTexture (issued w w') = []"
    unfolding w'_def by (rule step_issued_no_createTexture)
  moreover have "textureStore (gl w') = (textureStore (gl w))(texture (pano w) \<mapsto> setImage url)"
    by (simp add: w'_def load_stores)
  ultimately show ?thesis
    unfolding Let_def w_def [symmetric] w'_def [symmetric] by blast
qed

theorem texture_allocated_once_witness:
  "texture (pano (run [Loaded ''a.jpg'', Loaded ''b.jpg''] (newWorld getContext))) = 0
   \<and> filter is_createTexture
        (calls (gl (run [Loaded ''a.jpg'', Loaded ''b.jpg''] (newWorld getContext))))
       = [CreateTexture 0]
   \<and> textureStore (gl (run [Loaded ''a.jpg'', Loaded ''b.jpg''] (newWorld getContext))) 0
       = Some (Image ''anonymous'' ''b.jpg'')"
proof -
  have r: "run [Loaded ''a.jpg'', Loaded ''b.jpg''] (newWorld getContext)
      = snd (step (Loaded ''b.jpg'') (run [Loaded ''a.jpg''] (newWorld getContext)))"
    by simp
  have g: "nextHandle getContext = 0" "calls getContext = []"
    by (simp_all add: getContext_def)
  from texture_allocated_once [of "[Loaded ''a.jpg'']" getContext "''b.jpg''"]
  show ?thesis
    unfolding Let_def r g setImage_def by simp
qed

subsection \<open>The index buffer\<close>

lemma mem_panoIndices_40: "1680 \<in> set (panoIndices 40 40)"
proof -
  have "1680 \<in> set (cell 40 39 39)"
    by (simp add: cell_def quad_def)
  then show ?thesis
    unfolding set_panoIndices by (intro UN_I [of 39]) simp_all
qed

text \<open>
  Claim C9. With 40 by 40 segments every index the loops push is at most 1680, which
  is below \<open>2 ^ 16\<close>. So the conversion to unsigned 16-bit integers changes no index:
  the elements of the array given to the index buffer, read back as numbers, are the
  index list.
\<close>

theorem indices_fit_uint16:
  "(\<forall>k \<in> set (panoIndices 40 40). k \<le> 1680 \<and> k < 2 ^ 16)
   \<and> elements (Uint16Array (panoIndices 40 40)) = Some (panoIndices 40 40)
   \<and> bufferStore (gl (newWorld gl0)) (indexBuffer (pano (newWorld gl0)))
       = Some (Uint16Array (panoIndices 40 40))"
proof -
  have bound: "k \<le> 1680 \<and> k < 2 ^ 16" if "k \<in> set (panoIndices 40 40)" for k
    using panoIndices_bound [OF that] by simp
  have "unat (of_nat k :: 16 word) = k" if "k \<in> set (panoIndices 40 40)" for k
    using bound [OF that] by (simp add: unat_of_nat)
  then have "map (unat \<circ> (of_nat :: nat \<Rightarrow> 16 word)) (panoIndices 40 40) = panoIndices 40 40"
    by (simp add: map_idI)
  then show ?thesis
    using bound by (simp add: Uint16Array_def pano_newWorld stores_newWorld)
qed

theorem indices_fit_uint16_witness:
  "1680 \<in> set (panoIndices 40 40) \<and> (1680::nat) \<le> 1680 \<and> (1680::nat) < 2 ^ 16
   \<and> unat (of_nat 1680 :: 16 word) = 1680"
proof -
  from indices_fit_uint16 [of getContext] mem_panoIndices_40
  have "(1680::nat) \<le> 1680 \<and> (1680::nat) < 2 ^ 16" by blast
  with mem_panoIndices_40 show ?thesis by (simp add: unat_of_nat)
qed

end
